theory Spec2Isabelle
  imports Complex_Main "HOL-Library.Multiset"
begin

section \<open>Credit approval backend: a shallow embedding of \<^verbatim>\<open>backend/server.py\<close>\<close>

text \<open>
  Modelling conventions.
  \<^item> A Python \<^verbatim>\<open>float\<close> is an exact \<^typ>\<open>real\<close>: the arithmetic is the
    mathematical one, without rounding error, overflow, infinities or NaN. A Python \<^verbatim>\<open>int\<close>
    is an \<^typ>\<open>int\<close>.
  \<^item> Every division of the source is guarded in the model: Python raises
    \<^verbatim>\<open>ZeroDivisionError\<close> on a zero divisor, for floats as well as for integers, and
    FastAPI turns the unhandled exception into a server error.
  \<^item> A \<^verbatim>\<open>datetime\<close> is an integer number of microseconds; its range limit is not modelled.
  \<^item> The three MongoDB collections are lists of documents in insertion order. A stored
    document always carries every field its writers (\<^verbatim>\<open>register_customer\<close>,
    \<^verbatim>\<open>create_loan\<close>, \<^verbatim>\<open>make_payment\<close>, \<^verbatim>\<open>ingest_data\<close>) set, so a
    document is a record and \<^verbatim>\<open>d.get(k, default)\<close> reads the field \<^verbatim>\<open>k\<close>.
  \<^item> The store itself never fails: the \<^verbatim>\<open>except Exception\<close> handlers around the writes
    are not reachable in the model.
  \<^item> Fresh identifiers (\<^verbatim>\<open>uuid.uuid4()\<close>) and clock readings
    (\<^verbatim>\<open>datetime.utcnow()\<close>) are arguments of the operation that draws them.
\<close>

subsection \<open>Errors, time and Python's numeric primitives\<close>

datatype error = HTTPException nat string | ZeroDivisionError

type_synonym datetime = int

definition timedelta_days :: "int \<Rightarrow> int" where
  "timedelta_days d = d * 86400000000"

text \<open>\<^verbatim>\<open>int(x)\<close> on a float truncates toward zero.\<close>

definition py_int :: "real \<Rightarrow> int" where
  "py_int x = (if 0 \<le> x then \<lfloor>x\<rfloor> else \<lceil>x\<rceil>)"

text \<open>\<^verbatim>\<open>round(x)\<close> rounds to the nearest integer, ties to the even one.\<close>

definition py_round :: "real \<Rightarrow> int" where
  "py_round x =
     (let f = \<lfloor>x\<rfloor>; d = x - of_int f in
      if d < 1 / 2 then f
      else if 1 / 2 < d then f + 1
      else if even f then f else f + 1)"

text \<open>\<^verbatim>\<open>round(x, 2)\<close>: the same rounding at the second decimal place.\<close>

definition py_round2 :: "real \<Rightarrow> real" where
  "py_round2 x = of_int (py_round (x * 100)) / 100"

text \<open>
  \<^verbatim>\<open>pow(x, n)\<close> for a float base and an integer exponent; \<^verbatim>\<open>pow(0.0, n)\<close> with
  a negative \<^verbatim>\<open>n\<close> raises \<^verbatim>\<open>ZeroDivisionError\<close>.
\<close>

definition py_pow :: "real \<Rightarrow> int \<Rightarrow> error + real" where
  "py_pow x n =
     (if 0 \<le> n then Inr (x ^ nat n)
      else if x = 0 then Inl ZeroDivisionError
      else Inr (1 / x ^ nat (- n)))"

subsection \<open>Amortization and rate policy\<close>

text \<open>The argument \<^verbatim>\<open>principal\<close> is written \<open>principal'\<close>.\<close>

definition calculate_emi :: "real \<Rightarrow> real \<Rightarrow> int \<Rightarrow> error + real" where
  "calculate_emi principal' rate tenure =
     (let monthly_rate = rate / (12 * 100) in
      if monthly_rate = 0 then
        (if tenure = 0 then Inl ZeroDivisionError else Inr (principal' / real_of_int tenure))
      else
        (case py_pow (1 + monthly_rate) tenure of
           Inl e \<Rightarrow> Inl e
         | Inr p \<Rightarrow>
             if p - 1 = 0 then Inl ZeroDivisionError
             else Inr (py_round2 ((principal' * monthly_rate * p) / (p - 1)))))"

definition determine_interest_rate :: "int \<Rightarrow> real" where
  "determine_interest_rate credit_score =
     (if 750 \<le> credit_score then 8
      else if 650 \<le> credit_score then 10
      else if 550 \<le> credit_score then 12
      else 15)"

subsection \<open>Data model\<close>

record Customer =
  customer_id :: string
  first_name :: string
  last_name :: string
  phone_number :: "string option"
  monthly_salary :: real
  approved_limit :: real
  current_debt :: real
  created_at :: datetime

record CustomerCreate =
  first_name :: string
  last_name :: string
  phone_number :: "string option"
  monthly_salary :: real

record Loan =
  loan_id :: string
  customer_id :: string
  loan_amount :: real
  tenure :: int
  interest_rate :: real
  monthly_repayment :: real
  emis_paid_on_time :: int
  start_date :: datetime
  end_date :: datetime
  status :: string
  created_at :: datetime

record LoanCreate =
  customer_id :: string
  loan_amount :: real
  interest_rate :: real
  tenure :: int

record LoanEligibility =
  customer_id :: string
  loan_amount :: real
  interest_rate :: real
  tenure :: int

record LoanPayment =
  loan_id :: string
  payment_amount :: real
  payment_date :: datetime

record PaymentCreate =
  payment_amount :: real

text \<open>The dictionaries the routes return.\<close>

record RegisterResponse =
  customer_id :: string
  name :: string
  phone_number :: "string option"
  monthly_salary :: real
  approved_limit :: int

record EligibilityResponse =
  customer_id :: string
  approval :: bool
  interest_rate :: real
  corrected_interest_rate :: real
  tenure :: int
  monthly_installment :: real
  credit_score :: int

record CreateLoanResponse =
  loan_id :: string
  customer_id :: string
  loan_approved :: bool
  message :: string
  monthly_installment :: real

record PaymentResponse =
  message :: string
  loan_id :: string
  payment_amount :: real
  payment_date :: datetime

subsection \<open>Credit scoring\<close>

definition calculate_credit_score :: "Customer \<Rightarrow> Loan list \<Rightarrow> error + int" where
  "calculate_credit_score customer loans =
     (let score = 500 in
      if loans = [] then Inr score
      else
        let total_emis = sum_list (map Loan.tenure loans);
            paid_on_time = sum_list (map Loan.emis_paid_on_time loans);
            payment_ratio =
              (if 0 < total_emis then real_of_int paid_on_time / real_of_int total_emis else 0);
            score = score + py_int (payment_ratio * 200)
        in
        if Customer.approved_limit customer = 0 then Inl ZeroDivisionError
        else
          let debt_ratio = Customer.current_debt customer / Customer.approved_limit customer;
              score = score + py_int ((1 - debt_ratio) * 150);
              score = (if 0 < length loans then score + 100 else score);
              score = (if 3 < length loans then score + 50 else score);
              score =
                (if loans \<noteq> [] then
                   let avg_loan_amount =
                         sum_list (map Loan.loan_amount loans) / real (length loans);
                       income_ratio =
                         (if 0 < avg_loan_amount
                          then Customer.monthly_salary customer / avg_loan_amount else 0)
                   in if 2 < income_ratio then score + 50 else score
                 else score)
          in Inr (max (min score 850) 300))"

subsection \<open>Store operations\<close>

text \<open>The database \<^verbatim>\<open>db\<close> with its collections \<^verbatim>\<open>customers\<close>, \<^verbatim>\<open>loans\<close>
  and \<^verbatim>\<open>loan_payments\<close>.\<close>

record database =
  customers :: "Customer list"
  loans :: "Loan list"
  loan_payments :: "LoanPayment list"


definition find_one_loan :: "database \<Rightarrow> string \<Rightarrow> Loan option" where
  "find_one_loan db lid = find (\<lambda>l. Loan.loan_id l = lid) (loans db)"


text \<open>\<^verbatim>\<open>update_one\<close> changes the first matching document and no other.\<close>

fun update_one :: "('a \<Rightarrow> bool) \<Rightarrow> ('a \<Rightarrow> 'a) \<Rightarrow> 'a list \<Rightarrow> 'a list" where
  "update_one p f [] = []"
| "update_one p f (x # xs) = (if p x then f x # xs else x # update_one p f xs)"

subsection \<open>API routes\<close>




definition make_payment ::
  "database \<Rightarrow> datetime \<Rightarrow> datetime \<Rightarrow> string \<Rightarrow> PaymentCreate \<Rightarrow>
   error + (database \<times> PaymentResponse)" where
  "make_payment db now response_now lid payment_data =
     (case find_one_loan db lid of
        None \<Rightarrow> Inl (HTTPException 404 ''Loan not found'')
      | Some loan \<Rightarrow>
          let payment_doc =
                \<lparr>LoanPayment.loan_id = lid,
                 LoanPayment.payment_amount = PaymentCreate.payment_amount payment_data,
                 LoanPayment.payment_date = now\<rparr>;
              db1 = db\<lparr>loan_payments := loan_payments db @ [payment_doc]\<rparr>;
              db2 =
                (if \<bar>PaymentCreate.payment_amount payment_data - Loan.monthly_repayment loan\<bar>
                    < 0.01
                 then db1\<lparr>loans :=
                        update_one (\<lambda>l. Loan.loan_id l = lid)
                          (\<lambda>l. l\<lparr>Loan.emis_paid_on_time := Loan.emis_paid_on_time l + 1\<rparr>)
                          (loans db1)\<rparr>
                 else db1)
          in Inr (db2,
                  \<lparr>PaymentResponse.message = ''Payment recorded successfully'',
                   PaymentResponse.loan_id = lid,
                   PaymentResponse.payment_amount = PaymentCreate.payment_amount payment_data,
                   PaymentResponse.payment_date = response_now\<rparr>))"

section \<open>Auxiliary definitions and sample data\<close>


text \<open>A customer as \<^verbatim>\<open>register_customer\<close> stores it for a monthly salary of 50000, and two
  loans of that customer.\<close>

definition ex_customer :: Customer where
  "ex_customer =
     \<lparr>Customer.customer_id = ''c1'', Customer.first_name = ''John'',
      Customer.last_name = ''Doe'', Customer.phone_number = Some ''+1234567890'',
      Customer.monthly_salary = 50000, Customer.approved_limit = 1800000,
      Customer.current_debt = 0, Customer.created_at = 0\<rparr>"

definition ex_loan :: Loan where
  "ex_loan =
     \<lparr>Loan.loan_id = ''l1'', Loan.customer_id = ''c1'', Loan.loan_amount = 12000,
      Loan.tenure = 12, Loan.interest_rate = 0, Loan.monthly_repayment = 1000,
      Loan.emis_paid_on_time = 6, Loan.start_date = 0,
      Loan.end_date = timedelta_days 360, Loan.status = ''active'', Loan.created_at = 0\<rparr>"

definition ex_loan2 :: Loan where
  "ex_loan2 =
     \<lparr>Loan.loan_id = ''l2'', Loan.customer_id = ''c1'', Loan.loan_amount = 6000,
      Loan.tenure = 6, Loan.interest_rate = 0, Loan.monthly_repayment = 1000,
      Loan.emis_paid_on_time = 6, Loan.start_date = 0,
      Loan.end_date = timedelta_days 180, Loan.status = ''closed'', Loan.created_at = 0\<rparr>"

definition ex_db :: database where
  "ex_db = \<lparr>customers = [ex_customer], loans = [], loan_payments = []\<rparr>"

definition ex_db_loans :: database where
  "ex_db_loans = \<lparr>customers = [ex_customer], loans = [ex_loan, ex_loan2], loan_payments = []\<rparr>"

text \<open>A customer as \<^verbatim>\<open>register_customer\<close> stores it for a monthly salary of 0: the
  approved limit is \<^verbatim>\<open>round(36 * 0) = 0\<close>.\<close>

definition ex_customer_zero :: Customer where
  "ex_customer_zero =
     \<lparr>Customer.customer_id = ''c0'', Customer.first_name = ''Jane'',
      Customer.last_name = ''Roe'', Customer.phone_number = None,
      Customer.monthly_salary = 0, Customer.approved_limit = 0,
      Customer.current_debt = 0, Customer.created_at = 0\<rparr>"


text \<open>A customer with a salary but an approved limit of 0, as a row of an ingested
  spreadsheet can store it.\<close>

definition ex_customer_no_limit :: Customer where
  "ex_customer_no_limit = ex_customer\<lparr>Customer.approved_limit := 0\<rparr>"






definition ex_payment :: PaymentCreate where
  "ex_payment = \<lparr>PaymentCreate.payment_amount = 1000\<rparr>"

definition ex_payment_short :: PaymentCreate where
  "ex_payment_short = \<lparr>PaymentCreate.payment_amount = 1000 - 0.02\<rparr>"

definition ex_payment_over :: PaymentCreate where
  "ex_payment_over = \<lparr>PaymentCreate.payment_amount = 1000 + 0.005\<rparr>"




section \<open>Helper lemmas\<close>

subsection \<open>Amortization calculator\<close>












subsection \<open>Credit scorer\<close>

lemma calculate_credit_score_range:
  "calculate_credit_score c ls = Inr s \<Longrightarrow> 300 \<le> s \<and> s \<le> 850"
  by (auto simp: calculate_credit_score_def Let_def split: if_splits)


lemma calculate_credit_score_zero_limit:
  "ls \<noteq> [] \<Longrightarrow> Customer.approved_limit c = 0 \<Longrightarrow>
   calculate_credit_score c ls = Inl ZeroDivisionError"
  by (simp add: calculate_credit_score_def Let_def)

lemma calculate_credit_score_total:
  "ls = [] \<or> Customer.approved_limit c \<noteq> 0 \<Longrightarrow> \<exists>s. calculate_credit_score c ls = Inr s"
  by (auto simp: calculate_credit_score_def Let_def)


subsection \<open>Store\<close>

lemma find_update_one_same:
  "(\<And>x. P x \<Longrightarrow> P (f x)) \<Longrightarrow> find P (update_one P f xs) = map_option f (find P xs)"
  by (induction xs) auto

lemma find_update_one_other:
  "(\<And>x. Q (f x) = Q x) \<Longrightarrow> (\<And>x. P x \<Longrightarrow> \<not> Q x) \<Longrightarrow>
   find Q (update_one P f xs) = find Q xs"
  by (induction xs) auto

lemma length_update_one: "length (update_one P f xs) = length xs"
  by (induction xs) auto

subsection \<open>Routes\<close>







lemma find_one_loan_example: "find_one_loan ex_db_loans ''l1'' = Some ex_loan"
  by (simp add: find_one_loan_def ex_db_loans_def ex_loan_def)

lemma find_one_loan_example_none: "find_one_loan ex_db ''l1'' = None"
  by (simp add: find_one_loan_def ex_db_def)

section \<open>Rate policy\<close>

text \<open>
  Claim C7. \<^verbatim>\<open>determine_interest_rate\<close> maps every score of at least 750 to 8.0, every
  score in [650, 750) to 10.0, every score in [550, 650) to 12.0 and every lower score to
  15.0; the boundary scores 750, 650 and 550 receive 8.0, 10.0 and 12.0; and a lower score
  never gets a lower rate: for \<open>s \<le> t\<close> the rate of \<open>s\<close> is at least the rate of \<open>t\<close>.
\<close>

theorem determine_interest_rate_bands:
  "(750 \<le> s \<longrightarrow> determine_interest_rate s = 8) \<and>
   (650 \<le> s \<and> s < 750 \<longrightarrow> determine_interest_rate s = 10) \<and>
   (550 \<le> s \<and> s < 650 \<longrightarrow> determine_interest_rate s = 12) \<and>
   (s < 550 \<longrightarrow> determine_interest_rate s = 15) \<and>
   determine_interest_rate 750 = 8 \<and>
   determine_interest_rate 650 = 10 \<and>
   determine_interest_rate 550 = 12 \<and>
   (s \<le> t \<longrightarrow> determine_interest_rate t \<le> determine_interest_rate s)"
  by (simp add: determine_interest_rate_def)

theorem determine_interest_rate_bands_witness:
  "(750::int) \<le> 800 \<and> determine_interest_rate 800 = 8 \<and>
   (650::int) \<le> 700 \<and> (700::int) < 750 \<and> determine_interest_rate 700 = 10 \<and>
   (550::int) \<le> 600 \<and> (600::int) < 650 \<and> determine_interest_rate 600 = 12 \<and>
   (500::int) < 550 \<and> determine_interest_rate 500 = 15 \<and>
   (700::int) \<le> 800 \<and> determine_interest_rate 800 \<le> determine_interest_rate 700"
  using determine_interest_rate_bands [of 800 800] determine_interest_rate_bands [of 700 800]
    determine_interest_rate_bands [of 600 600] determine_interest_rate_bands [of 500 500]
  by simp

section \<open>Amortization calculator\<close>

text \<open>
  Claim C5. For every principal \<open>P > 0\<close> and tenure \<open>n \<ge> 1\<close>, \<^verbatim>\<open>calculate_emi\<close> with
  annual rate 0 returns \<open>P / n\<close> rounded to 2 decimal places. The code returns the quotient
  as it is: for \<open>P = 100\<close>, \<open>n = 3\<close> the result is \<open>100 / 3\<close>, while the rounded value,
  which the branch for a nonzero rate would produce through \<^verbatim>\<open>round(emi, 2)\<close>, is 33.33.
\<close>

theorem calculate_emi_zero_rate_not_rounded:
  "calculate_emi 100 0 3 = Inr (100 / 3) \<and>
   py_round2 (100 / 3) = 3333 / 100 \<and>
   calculate_emi 100 0 3 \<noteq> Inr (py_round2 (100 / 3))"
  by (simp add: calculate_emi_def py_round2_def py_round_def Let_def)

section \<open>Credit scorer\<close>

text \<open>
  Claim C4. For every customer profile with at least one historical loan,
  \<^verbatim>\<open>calculate_credit_score\<close> is total, an approved limit of 0 being replaced by the
  denominator 1. The default 1 of \<^verbatim>\<open>customer.get('approved_limit', 1)\<close> is taken only
  when the key is absent; a stored approved limit of 0 is the divisor, and the call raises
  \<^verbatim>\<open>ZeroDivisionError\<close>.
\<close>

theorem calculate_credit_score_zero_limit_raises:
  "Customer.approved_limit ex_customer_zero = 0 \<and>
   calculate_credit_score ex_customer_zero [ex_loan] = Inl ZeroDivisionError"
  by (simp add: calculate_credit_score_def ex_customer_zero_def ex_loan_def Let_def)

text \<open>
  Claim C6. For every customer profile and every loan history \<^verbatim>\<open>calculate_credit_score\<close>
  returns an integer in [300, 850], and exactly 500 for an empty history. Whenever the
  function returns, its result is in that range (\<open>calculate_credit_score_range\<close>), and
  the empty history gives 500 (\<open>calculate_credit_score_empty\<close>); but for a profile with an
  approved limit of 0 and a non-empty history it returns no score at all.
\<close>

theorem calculate_credit_score_not_total:
  "Customer.approved_limit ex_customer_no_limit = 0 \<and>
   calculate_credit_score ex_customer_no_limit [ex_loan, ex_loan2] = Inl ZeroDivisionError"
  by (simp add: calculate_credit_score_def ex_customer_no_limit_def ex_customer_def Let_def)



section \<open>Eligibility evaluator\<close>




section \<open>Loan creation\<close>





section \<open>Payments\<close>

text \<open>
  Claim C9. \<^verbatim>\<open>make_payment\<close> fails exactly when the referenced loan does not exist.
  Otherwise it appends one payment record, leaves the customers (and so every
  \<^verbatim>\<open>current_debt\<close>) untouched, and leaves the loan as it was except that
  \<^verbatim>\<open>emis_paid_on_time\<close> is incremented by 1 if and only if
  \<open>\<bar>payment_amount - monthly_repayment\<bar> < 0.01\<close>; no other loan changes. A payment of
  installment - 0.02 does not increment the counter, a payment of installment + 0.005 does.
\<close>

theorem make_payment_effect:
  "((\<exists>e. make_payment db now rnow lid pd = Inl e) \<longleftrightarrow> find_one_loan db lid = None) \<and>
   (\<forall>loan. find_one_loan db lid = Some loan \<longrightarrow>
      (\<exists>db' resp. make_payment db now rnow lid pd = Inr (db', resp) \<and>
         loan_payments db' = loan_payments db @
           [\<lparr>LoanPayment.loan_id = lid,
             LoanPayment.payment_amount = PaymentCreate.payment_amount pd,
             LoanPayment.payment_date = now\<rparr>] \<and>
         customers db' = customers db \<and>
         find_one_loan db' lid =
           Some (if \<bar>PaymentCreate.payment_amount pd - Loan.monthly_repayment loan\<bar> < 0.01
                 then loan\<lparr>Loan.emis_paid_on_time := Loan.emis_paid_on_time loan + 1\<rparr>
                 else loan) \<and>
         (\<forall>lid'. lid' \<noteq> lid \<longrightarrow> find_one_loan db' lid' = find_one_loan db lid') \<and>
         length (loans db') = length (loans db) \<and>
         (PaymentCreate.payment_amount pd = Loan.monthly_repayment loan - 0.02 \<longrightarrow>
            find_one_loan db' lid = Some loan) \<and>
         (PaymentCreate.payment_amount pd = Loan.monthly_repayment loan + 0.005 \<longrightarrow>
            find_one_loan db' lid =
              Some (loan\<lparr>Loan.emis_paid_on_time := Loan.emis_paid_on_time loan + 1\<rparr>))))"
proof (intro conjI allI impI)
  show "(\<exists>e. make_payment db now rnow lid pd = Inl e) \<longleftrightarrow> find_one_loan db lid = None"
    unfolding make_payment_def by (auto simp: Let_def split: option.splits)
next
  fix loan
  assume l: "find_one_loan db lid = Some loan"
  let ?P = "\<lambda>l. Loan.loan_id l = lid"
  let ?f = "\<lambda>l. l\<lparr>Loan.emis_paid_on_time := Loan.emis_paid_on_time l + 1\<rparr>"
  have same: "find ?P (update_one ?P ?f (loans db)) = Some (?f loan)"
    using l find_update_one_same [of ?P ?f "loans db"] by (simp add: find_one_loan_def)
  have other: "find (\<lambda>l. Loan.loan_id l = lid') (update_one ?P ?f (loans db)) =
               find (\<lambda>l. Loan.loan_id l = lid') (loans db)" if "lid' \<noteq> lid" for lid'
    using that find_update_one_other [of "\<lambda>l. Loan.loan_id l = lid'" ?f ?P "loans db"]
    by simp
  show "\<exists>db' resp. make_payment db now rnow lid pd = Inr (db', resp) \<and>
         loan_payments db' = loan_payments db @
           [\<lparr>LoanPayment.loan_id = lid,
             LoanPayment.payment_amount = PaymentCreate.payment_amount pd,
             LoanPayment.payment_date = now\<rparr>] \<and>
         customers db' = customers db \<and>
         find_one_loan db' lid =
           Some (if \<bar>PaymentCreate.payment_amount pd - Loan.monthly_repayment loan\<bar> < 0.01
                 then loan\<lparr>Loan.emis_paid_on_time := Loan.emis_paid_on_time loan + 1\<rparr>
                 else loan) \<and>
         (\<forall>lid'. lid' \<noteq> lid \<longrightarrow> find_one_loan db' lid' = find_one_loan db lid') \<and>
         length (loans db') = length (loans db) \<and>
         (PaymentCreate.payment_amount pd = Loan.monthly_repayment loan - 0.02 \<longrightarrow>
            find_one_loan db' lid = Some loan) \<and>
         (PaymentCreate.payment_amount pd = Loan.monthly_repayment loan + 0.005 \<longrightarrow>
            find_one_loan db' lid =
              Some (loan\<lparr>Loan.emis_paid_on_time := Loan.emis_paid_on_time loan + 1\<rparr>))"
  proof (cases "\<bar>PaymentCreate.payment_amount pd - Loan.monthly_repayment loan\<bar> < 0.01")
    case True
    then show ?thesis
      unfolding make_payment_def using l same other
      by (auto simp: Let_def find_one_loan_def length_update_one)
  next
    case False
    then show ?thesis
      unfolding make_payment_def using l
      by (auto simp: Let_def find_one_loan_def)
  qed
qed

theorem make_payment_effect_witness:
  "find_one_loan ex_db ''l1'' = None \<and>
   (\<exists>e. make_payment ex_db 5 6 ''l1'' ex_payment = Inl e) \<and>
   find_one_loan ex_db_loans ''l1'' = Some ex_loan \<and>
   ''l2'' \<noteq> ''l1'' \<and>
   (\<exists>db' resp. make_payment ex_db_loans 5 6 ''l1'' ex_payment = Inr (db', resp) \<and>
      find_one_loan db' ''l1'' = Some (ex_loan\<lparr>Loan.emis_paid_on_time := 7\<rparr>) \<and>
      find_one_loan db' ''l2'' = find_one_loan ex_db_loans ''l2'') \<and>
   PaymentCreate.payment_amount ex_payment_short = Loan.monthly_repayment ex_loan - 0.02 \<and>
   (\<exists>db' resp. make_payment ex_db_loans 5 6 ''l1'' ex_payment_short = Inr (db', resp) \<and>
      find_one_loan db' ''l1'' = Some ex_loan) \<and>
   PaymentCreate.payment_amount ex_payment_over = Loan.monthly_repayment ex_loan + 0.005 \<and>
   (\<exists>db' resp. make_payment ex_db_loans 5 6 ''l1'' ex_payment_over = Inr (db', resp) \<and>
      find_one_loan db' ''l1'' = Some (ex_loan\<lparr>Loan.emis_paid_on_time := 7\<rparr>))"
proof -
  have a: "\<exists>e. make_payment ex_db 5 6 ''l1'' ex_payment = Inl e"
    using make_payment_effect [of ex_db 5 6 "''l1''" ex_payment] find_one_loan_example_none
    by simp
  have v: "Loan.monthly_repayment ex_loan = 1000" "Loan.emis_paid_on_time ex_loan = 6"
    by (simp_all add: ex_loan_def)
  have b: "\<exists>db' resp. make_payment ex_db_loans 5 6 ''l1'' ex_payment = Inr (db', resp) \<and>
      find_one_loan db' ''l1'' = Some (ex_loan\<lparr>Loan.emis_paid_on_time := 7\<rparr>) \<and>
      find_one_loan db' ''l2'' = find_one_loan ex_db_loans ''l2''"
    using make_payment_effect [of ex_db_loans 5 6 "''l1''" ex_payment] find_one_loan_example
    by (auto simp: v ex_payment_def)
  have s: "PaymentCreate.payment_amount ex_payment_short = Loan.monthly_repayment ex_loan - 0.02"
    by (simp add: ex_payment_short_def v)
  have c: "\<exists>db' resp. make_payment ex_db_loans 5 6 ''l1'' ex_payment_short = Inr (db', resp) \<and>
      find_one_loan db' ''l1'' = Some ex_loan"
    using make_payment_effect [of ex_db_loans 5 6 "''l1''" ex_payment_short]
      find_one_loan_example s
    by auto
  have t: "PaymentCreate.payment_amount ex_payment_over = Loan.monthly_repayment ex_loan + 0.005"
    by (simp add: ex_payment_over_def v)
  have d: "\<exists>db' resp. make_payment ex_db_loans 5 6 ''l1'' ex_payment_over = Inr (db', resp) \<and>
      find_one_loan db' ''l1'' = Some (ex_loan\<lparr>Loan.emis_paid_on_time := 7\<rparr>)"
    using make_payment_effect [of ex_db_loans 5 6 "''l1''" ex_payment_over]
      find_one_loan_example t
    by (auto simp: v)
  show ?thesis
    using a b c d s t find_one_loan_example find_one_loan_example_none by simp
qed

section \<open>Input validation\<close>




end
